theory Spec2Isabelle
  imports Main
begin

section \<open>The session server of the tic-tac-toe repository (server.py)\<close>

text \<open>
  A shallow embedding of \<^verbatim>\<open>src/server.py\<close>. Connections are identifiers, the room
  dictionary is a record, the room directory \<^verbatim>\<open>rooms\<close> is a map from codes to rooms,
  the board is a list of rows of Python integers. Everything the server sends, closes or
  starts is appended to a list of actions. What the network does (which sends raise, what
  \<^verbatim>\<open>recv\<close> returns and in which order) is an input of the model.
\<close>

subsection \<open>Data\<close>

type_synonym conn = nat
type_synonym addr = "string \<times> int"

record room =
  code :: string
  players :: "conn list"
  addrs :: "addr list"
  spectators :: "conn list"
  matrix :: "int list list"

definition PLAYER_ONE :: int where
  "PLAYER_ONE = 1"

definition PLAYER_TWO :: int where
  "PLAYER_TWO = 2"

text \<open>
  What the server does to the outside: \<^verbatim>\<open>c.send(text.encode())\<close> (the attempt, whether
  or not it raises), \<^verbatim>\<open>c.close()\<close>, and the start of a Turn Engine thread for a code.
\<close>

datatype action = Send conn string | Close conn | StartThread string

subsection \<open>The Win Evaluator\<close>

text \<open>
  \<^verbatim>\<open>next((row[0] for row in matrix if row[0] == row[1] == row[2] != 0), 0)\<close>: the first
  row that passes the chained comparison, else the default 0. The board is created as a
  3 by 3 literal and only ever changed by item assignment, so the constant indices 0..2
  are in range (see \<open>board3\<close> and \<open>set_cell_board3\<close> below).
\<close>

definition check_rows :: "int list list \<Rightarrow> int" where
  "check_rows m =
     (case find (\<lambda>row. row ! 0 = row ! 1 \<and> row ! 1 = row ! 2 \<and> row ! 2 \<noteq> 0) m of
        None \<Rightarrow> 0
      | Some row \<Rightarrow> row ! 0)"

definition check_columns :: "int list list \<Rightarrow> int" where
  "check_columns m =
     (case find (\<lambda>i. m ! 0 ! i = m ! 1 ! i \<and> m ! 1 ! i = m ! 2 ! i \<and> m ! 2 ! i \<noteq> 0) [0..<3] of
        None \<Rightarrow> 0
      | Some i \<Rightarrow> m ! 0 ! i)"

definition check_diagonals :: "int list list \<Rightarrow> int" where
  "check_diagonals m =
     (if m ! 0 ! 0 = m ! 1 ! 1 \<and> m ! 1 ! 1 = m ! 2 ! 2 \<and> m ! 2 ! 2 \<noteq> 0 then m ! 0 ! 0
      else if m ! 0 ! 2 = m ! 1 ! 1 \<and> m ! 1 ! 1 = m ! 2 ! 0 \<and> m ! 2 ! 0 \<noteq> 0 then m ! 0 ! 2
      else 0)"

text \<open>Python's \<^verbatim>\<open>a or b or c\<close>: the first operand that is not 0, else the last.\<close>

definition check_winner :: "int list list \<Rightarrow> int" where
  "check_winner m =
     (if check_rows m \<noteq> 0 then check_rows m
      else if check_columns m \<noteq> 0 then check_columns m
      else check_diagonals m)"

definition board3 :: "int list list \<Rightarrow> bool" where
  "board3 m = (length m = 3 \<and> list_all (\<lambda>row. length row = 3) m)"

text \<open>
  The specification's reading of the evaluator, to compare with the code: the eight lines
  in the order rows, columns, main diagonal, anti-diagonal; a line is complete when its
  three cells hold the same non-empty mark; the answer is the mark of the first complete
  line, or 0.
\<close>

definition winning_lines :: "(nat \<times> nat) list list" where
  "winning_lines =
     [[(0,0),(0,1),(0,2)], [(1,0),(1,1),(1,2)], [(2,0),(2,1),(2,2)],
      [(0,0),(1,0),(2,0)], [(0,1),(1,1),(2,1)], [(0,2),(1,2),(2,2)],
      [(0,0),(1,1),(2,2)], [(0,2),(1,1),(2,0)]]"

definition cell :: "int list list \<Rightarrow> nat \<times> nat \<Rightarrow> int" where
  "cell m p = m ! fst p ! snd p"

definition line_complete :: "int list list \<Rightarrow> (nat \<times> nat) list \<Rightarrow> bool" where
  "line_complete m l =
     (cell m (l ! 0) \<noteq> 0 \<and> cell m (l ! 1) = cell m (l ! 0) \<and> cell m (l ! 2) = cell m (l ! 0))"

definition spec_winner :: "int list list \<Rightarrow> int" where
  "spec_winner m =
     (case find (line_complete m) winning_lines of
        None \<Rightarrow> 0
      | Some l \<Rightarrow> cell m (l ! 0))"

text \<open>The mark of a line that was found, 0 when none was.\<close>

definition mark :: "int list list \<Rightarrow> (nat \<times> nat) list option \<Rightarrow> int" where
  "mark m found = (case found of None \<Rightarrow> 0 | Some l \<Rightarrow> cell m (l ! 0))"

subsection \<open>Python strings, integers and list indexing\<close>

text \<open>
  Messages are modelled as byte strings (\<open>string\<close>), that is, as ASCII text: the
  whitespace of \<^verbatim>\<open>str.strip\<close> and of \<^verbatim>\<open>int\<close> is the ASCII whitespace
  (codes 9 to 13 and 28 to 32), and the digits of \<^verbatim>\<open>int\<close> are the ASCII digits.
\<close>

definition is_space :: "char \<Rightarrow> bool" where
  "is_space c = (let n = (of_char c :: nat) in (9 \<le> n \<and> n \<le> 13) \<or> (28 \<le> n \<and> n \<le> 32))"

definition py_strip :: "string \<Rightarrow> string" where
  "py_strip s = rev (dropWhile is_space (rev (dropWhile is_space s)))"

definition py_count :: "char \<Rightarrow> string \<Rightarrow> nat" where
  "py_count c s = length (filter (\<lambda>x. x = c) s)"

text \<open>\<^verbatim>\<open>xs, ys = text.split(",")\<close> for a text with exactly one comma.\<close>

definition split_comma :: "string \<Rightarrow> string \<times> string" where
  "split_comma text =
     (takeWhile (\<lambda>c. c \<noteq> CHR '','') text, drop 1 (dropWhile (\<lambda>c. c \<noteq> CHR '','') text))"

definition startswith :: "string \<Rightarrow> string \<Rightarrow> bool" where
  "startswith p s = (take (length p) s = p)"

definition is_digit :: "char \<Rightarrow> bool" where
  "is_digit c = (let n = (of_char c :: nat) in 48 \<le> n \<and> n \<le> 57)"

definition digit_val :: "char \<Rightarrow> int" where
  "digit_val c = int (of_char c) - 48"

text \<open>
  The characters after the first digit of an integer literal: digits, each optionally
  preceded by one underscore.
\<close>

fun int_body :: "string \<Rightarrow> bool" where
  "int_body [] = True"
| "int_body [c] = is_digit c"
| "int_body (c # d # ds) =
     (if is_digit c then int_body (d # ds) else c = CHR ''_'' \<and> is_digit d \<and> int_body ds)"

definition dec_value :: "string \<Rightarrow> int" where
  "dec_value s = foldl (\<lambda>acc c. acc * 10 + digit_val c) 0 (filter is_digit s)"

text \<open>
  \<^verbatim>\<open>int(s)\<close> on a string: surrounding whitespace is dropped, one sign is allowed, then
  decimal digits. \<open>None\<close> is the \<^verbatim>\<open>ValueError\<close>.
\<close>

definition py_int :: "string \<Rightarrow> int option" where
  "py_int s =
     (let t = py_strip s;
          neg = (t \<noteq> [] \<and> hd t = CHR ''-'');
          u = (if t \<noteq> [] \<and> (hd t = CHR ''-'' \<or> hd t = CHR ''+'') then tl t else t)
      in case u of
           [] \<Rightarrow> None
         | c # cs \<Rightarrow>
             if is_digit c \<and> int_body cs
             then Some (if neg then - dec_value u else dec_value u)
             else None)"

fun str_nat :: "nat \<Rightarrow> string" where
  "str_nat n =
     (if n < 10 then [char_of (48 + n)] else str_nat (n div 10) @ [char_of (48 + n mod 10)])"

declare str_nat.simps [simp del]

definition str_int :: "int \<Rightarrow> string" where
  "str_int i = (if i < 0 then ''-'' @ str_nat (nat (- i)) else str_nat (nat i))"

fun join_comma :: "string list \<Rightarrow> string" where
  "join_comma [] = []"
| "join_comma [x] = x"
| "join_comma (x # y # ys) = x @ '', '' @ join_comma (y # ys)"

definition str_list :: "('a \<Rightarrow> string) \<Rightarrow> 'a list \<Rightarrow> string" where
  "str_list f xs = ''['' @ join_comma (map f xs) @ '']''"

text \<open>\<^verbatim>\<open>str(room["matrix"])\<close>, for instance \<^verbatim>\<open>[[0, 0, 0], [0, 0, 0], [0, 0, 0]]\<close>.\<close>

definition str_matrix :: "int list list \<Rightarrow> string" where
  "str_matrix m = str_list (str_list str_int) m"

text \<open>
  A Python list index: \<open>i\<close> in \<open>0..n-1\<close> is itself, \<open>i\<close> in \<open>-n..-1\<close> counts from the
  end, anything else is the \<^verbatim>\<open>IndexError\<close> (\<open>None\<close>).
\<close>

definition py_index :: "nat \<Rightarrow> int \<Rightarrow> nat option" where
  "py_index n i =
     (if 0 \<le> i \<and> i < int n then Some (nat i)
      else if i < 0 \<and> - int n \<le> i then Some (nat (int n + i))
      else None)"

text \<open>\<^verbatim>\<open>room["matrix"][x][y] = v\<close>: nothing is written when either index raises.\<close>

definition set_cell :: "int list list \<Rightarrow> int \<Rightarrow> int \<Rightarrow> int \<Rightarrow> int list list option" where
  "set_cell m x y v =
     (case py_index (length m) x of
        None \<Rightarrow> None
      | Some i \<Rightarrow>
          (case py_index (length (m ! i)) y of
             None \<Rightarrow> None
           | Some j \<Rightarrow> Some (m[i := (m ! i)[j := v]])))"

subsection \<open>Relay and labelling\<close>

definition room_conns_all :: "room \<Rightarrow> conn list" where
  "room_conns_all rm = players rm @ spectators rm"

text \<open>
  \<^verbatim>\<open>send_to_all\<close>: one send per connection, in list order; an exception of a send is
  suppressed, so every connection is attempted.
\<close>

definition send_to_all :: "room \<Rightarrow> string \<Rightarrow> action list" where
  "send_to_all rm text = map (\<lambda>c. Send c text) (room_conns_all rm)"

definition send_common_msg :: "room \<Rightarrow> string \<Rightarrow> action list" where
  "send_common_msg rm text = send_to_all rm text"

text \<open>\<^verbatim>\<open>xs.index(x)\<close> for an \<open>x\<close> that occurs in \<open>xs\<close>: the first position.\<close>

definition index_of :: "'a \<Rightarrow> 'a list \<Rightarrow> nat" where
  "index_of x xs = length (takeWhile (\<lambda>y. y \<noteq> x) xs)"

definition get_sender_label :: "room \<Rightarrow> conn \<Rightarrow> string" where
  "get_sender_label rm c =
     (if c \<in> set (players rm) then ''Player'' @ str_nat (index_of c (players rm) + 1)
      else if c \<in> set (spectators rm) then ''spec_'' @ str_nat (index_of c (spectators rm) + 1)
      else ''Unknown'')"

definition broadcast_chat :: "room \<Rightarrow> conn \<Rightarrow> string \<Rightarrow> action list" where
  "broadcast_chat rm origin_conn text =
     send_to_all rm (''CHAT:'' @ get_sender_label rm origin_conn @ '':'' @ text)"

subsection \<open>The wait loop of get_input\<close>

text \<open>
  The network is an input. An event \<open>Recv r d\<close> is one iteration of
  \<^verbatim>\<open>for r in readable\<close>: the socket \<open>r\<close> and what \<^verbatim>\<open>r.recv\<close> gives, either bytes
  (\<open>Data\<close>; the empty string is the closed or empty read) or an exception of
  \<^verbatim>\<open>recv\<close> or \<^verbatim>\<open>decode\<close> (\<open>RecvError\<close>). \<open>Reselect\<close> ends the current
  \<^verbatim>\<open>readable\<close> list: the server goes round the \<^verbatim>\<open>while True\<close> loop and calls
  \<^verbatim>\<open>select\<close> again. When the events are used up nothing more ever arrives.
\<close>

datatype recv = Data string | RecvError

datatype event = Recv conn recv | Reselect

text \<open>
  \<^verbatim>\<open>select.select(sockets, [], [], 0.5)\<close> returns only when there are sockets and none of
  them has been closed by the server: with an empty list the loop sleeps and continues
  for ever, and a closed socket makes \<^verbatim>\<open>select\<close> raise \<^verbatim>\<open>ValueError\<close>, which the
  outer handler swallows before the loop tries the same call again.
\<close>

definition select_ok :: "conn list \<Rightarrow> conn list \<Rightarrow> bool" where
  "select_ok sockets closed = (sockets \<noteq> [] \<and> list_all (\<lambda>c. c \<notin> set closed) sockets)"

text \<open>
  What one iteration of the \<^verbatim>\<open>for\<close> body does:
  \<^item> \<open>Continue\<close>: go on with the next readable socket (\<^verbatim>\<open>continue\<close> or the end of the
    body), with the room, the closed sockets, the local \<^verbatim>\<open>sockets\<close> and the messages
    sent;
  \<^item> \<open>Raises\<close>: an exception leaves the \<^verbatim>\<open>for\<close> loop for the outer handler; nothing
    was changed;
  \<^item> \<open>Returns\<close>: the move was written and broadcast, \<^verbatim>\<open>get_input\<close> returns.
\<close>

datatype step =
    Continue room "conn list" "conn list" "action list"
  | Raises
  | Returns room "action list"

definition recv_step ::
  "room \<Rightarrow> conn list \<Rightarrow> int \<Rightarrow> conn \<Rightarrow> conn list \<Rightarrow> conn \<Rightarrow> recv \<Rightarrow> step" where
  "recv_step rm closed current_player turn_conn sockets r d =
     (if r \<in> set closed then Raises
      else case d of
        RecvError \<Rightarrow> Raises
      | Data s \<Rightarrow>
          if s = [] then
            (if r \<in> set (spectators rm) then
               (let rm' = rm\<lparr>spectators := remove1 r (spectators rm)\<rparr>
                in Continue rm' closed (room_conns_all rm') [])
             else if r \<in> set (players rm) then
               Continue rm (r # closed) (room_conns_all rm) []
             else Continue rm closed (room_conns_all rm) [])
          else
            (let text = py_strip s in
             if r = turn_conn \<and> CHR '','' \<in> set text \<and> py_count (CHR '','') text = 1 then
               (case py_int (fst (split_comma text)) of
                  None \<Rightarrow> Continue rm closed sockets []
                | Some x \<Rightarrow>
                    (case py_int (snd (split_comma text)) of
                       None \<Rightarrow> Continue rm closed sockets []
                     | Some y \<Rightarrow>
                         (case set_cell (matrix rm) x y current_player of
                            None \<Rightarrow> Raises
                          | Some m' \<Rightarrow>
                              (let rm' = rm\<lparr>matrix := m'\<rparr>
                               in Returns rm'
                                    (send_to_all rm' ''Matrix'' @ send_to_all rm' (str_matrix m'))))))
             else if startswith ''CHAT:'' text then
               Continue rm closed sockets
                 (broadcast_chat rm r (py_strip (drop (length ''CHAT:'') text)))
             else Continue rm closed sockets []))"

text \<open>What a call of \<^verbatim>\<open>get_input\<close> that returns leaves behind.\<close>

record ply_result =
  p_room :: room
  p_closed :: "conn list"
  p_rest :: "event list"
  p_sent :: "action list"
  p_moved :: bool

text \<open>
  The \<^verbatim>\<open>while True\<close> loop. \<open>None\<close>: the loop never ends (no event is left, or
  \<^verbatim>\<open>select\<close> cannot return). A socket outside \<^verbatim>\<open>sockets\<close> is never reported by
  \<^verbatim>\<open>select\<close>, so its events are not read.
\<close>

fun wait_loop ::
  "room \<Rightarrow> conn list \<Rightarrow> int \<Rightarrow> conn \<Rightarrow> conn list \<Rightarrow> action list \<Rightarrow> event list
     \<Rightarrow> ply_result option" where
  "wait_loop rm closed current_player turn_conn sockets out [] = None"
| "wait_loop rm closed current_player turn_conn sockets out (Reselect # evs) =
     (if select_ok sockets closed
      then wait_loop rm closed current_player turn_conn sockets out evs
      else None)"
| "wait_loop rm closed current_player turn_conn sockets out (Recv r d # evs) =
     (if r \<notin> set sockets then wait_loop rm closed current_player turn_conn sockets out evs
      else case recv_step rm closed current_player turn_conn sockets r d of
        Continue rm' closed' sockets' msgs \<Rightarrow>
          wait_loop rm' closed' current_player turn_conn sockets' (out @ msgs) evs
      | Raises \<Rightarrow>
          (if select_ok sockets closed
           then wait_loop rm closed current_player turn_conn sockets out evs
           else None)
      | Returns rm' msgs \<Rightarrow>
          Some \<lparr>p_room = rm', p_closed = closed, p_rest = evs, p_sent = out @ msgs,
                p_moved = True\<rparr>)"

subsection \<open>get_input\<close>

text \<open>
  \<open>prompt_ok\<close> is the network's answer to \<^verbatim>\<open>turn_conn.send("Input")\<close>; on a socket the
  server has closed the send raises in any case. After a failed prompt the server tries
  to send \<^verbatim>\<open>Error\<close> on the same socket and returns.
\<close>

definition turn_label :: "int \<Rightarrow> string" where
  "turn_label current_player =
     (if current_player = PLAYER_ONE then ''Player One's Turn'' else ''Player Two's Turn'')"

definition get_input :: "room \<Rightarrow> conn list \<Rightarrow> int \<Rightarrow> bool \<Rightarrow> event list \<Rightarrow> ply_result option" where
  "get_input rm closed current_player prompt_ok evs =
     (if length (players rm) < 2 then
        Some \<lparr>p_room = rm, p_closed = closed, p_rest = evs, p_sent = [], p_moved = False\<rparr>
      else
        (let turn_conn = (if current_player = PLAYER_ONE then players rm ! 0 else players rm ! 1);
             out = send_to_all rm (turn_label current_player) @ [Send turn_conn ''Input'']
         in if \<not> (prompt_ok \<and> turn_conn \<notin> set closed) then
              Some \<lparr>p_room = rm, p_closed = closed, p_rest = evs,
                    p_sent = out @ [Send turn_conn ''Error''], p_moved = False\<rparr>
            else if select_ok (room_conns_all rm) closed then
              wait_loop rm closed current_player turn_conn (room_conns_all rm) out evs
            else None))"

subsection \<open>The Turn Engine\<close>

text \<open>
  The state of \<^verbatim>\<open>start_game_for_room\<close>: the room, the sockets closed so far, the events
  still to come, what was sent, \<^verbatim>\<open>result\<close> and \<^verbatim>\<open>turn_count\<close>. \<open>history\<close> is not in
  the program: it records, for every finished iteration of the loop, the player passed to
  \<^verbatim>\<open>get_input\<close>, whether that call wrote a move, the board before and after the call,
  and the value of \<^verbatim>\<open>check_winner\<close> after it. \<open>blocked\<close> says that a call of
  \<^verbatim>\<open>get_input\<close> never returned.
\<close>

record ply =
  mover :: int
  moved :: bool
  board_before :: "int list list"
  board_after :: "int list list"
  winner :: int

record game =
  g_room :: room
  g_closed :: "conn list"
  g_events :: "event list"
  g_out :: "action list"
  result :: int
  turn_count :: nat
  history :: "ply list"
  blocked :: bool

definition current_of :: "nat \<Rightarrow> int" where
  "current_of tc = (if tc mod 2 = 0 then PLAYER_ONE else PLAYER_TWO)"

text \<open>One iteration whose \<^verbatim>\<open>get_input\<close> returned \<open>p\<close>: the rest of the loop body.\<close>

definition next_ply :: "game \<Rightarrow> ply_result \<Rightarrow> game" where
  "next_ply g p =
     g\<lparr>g_room := p_room p, g_closed := p_closed p, g_events := p_rest p,
       g_out := g_out g @ p_sent p,
       result := check_winner (matrix (p_room p)),
       turn_count := turn_count g + 1,
       history := history g @
         [\<lparr>mover = current_of (turn_count g), moved = p_moved p,
           board_before = matrix (g_room g), board_after = matrix (p_room p),
           winner = check_winner (matrix (p_room p))\<rparr>]\<rparr>"

text \<open>
  \<^verbatim>\<open>while result == 0 and turn_count < 9\<close>. \<open>po k\<close> is the network's answer to the
  prompt send of iteration \<open>k\<close>.
\<close>

function game_loop :: "(nat \<Rightarrow> bool) \<Rightarrow> game \<Rightarrow> game" where
  "game_loop po g =
     (if result g = 0 \<and> turn_count g < 9 then
        (case get_input (g_room g) (g_closed g) (current_of (turn_count g)) (po (turn_count g))
                (g_events g) of
           None \<Rightarrow> g\<lparr>blocked := True\<rparr>
         | Some p \<Rightarrow> game_loop po (next_ply g p))
      else g)"
  by pat_completeness auto
termination
  by (relation "measure (\<lambda>(po, g). 9 - turn_count g)") (auto simp: next_ply_def)

declare game_loop.simps [simp del]

definition lastmsg :: "int \<Rightarrow> string" where
  "lastmsg res =
     (if res = PLAYER_ONE then ''Player One is the winner!!''
      else if res = PLAYER_TWO then ''Player Two is the winner!!''
      else ''Draw game!! Try again later!'')"

text \<open>The part of \<^verbatim>\<open>start_game_for_room\<close> after the loop, up to the closing of sockets.\<close>

definition game_over :: "room \<Rightarrow> int \<Rightarrow> action list" where
  "game_over rm res =
     send_common_msg rm ''Over'' @ send_common_msg rm (lastmsg res) @
     map Close (players rm @ spectators rm)"

definition new_game :: "room \<Rightarrow> event list \<Rightarrow> game" where
  "new_game rm evs =
     \<lparr>g_room = rm, g_closed = [], g_events = evs, g_out = [], result = 0, turn_count = 0,
      history = [], blocked = False\<rparr>"

text \<open>
  \<^verbatim>\<open>start_game_for_room(code)\<close>. \<open>None\<close>: \<^verbatim>\<open>rooms[code]\<close> raises \<^verbatim>\<open>KeyError\<close>. The room
  is the object stored in the directory, so while the loop is blocked the directory
  shows the room as the loop left it; when the loop ends the room is popped.
\<close>

definition start_game_for_room ::
  "(string \<rightharpoonup> room) \<Rightarrow> string \<Rightarrow> (nat \<Rightarrow> bool) \<Rightarrow> event list
     \<Rightarrow> ((string \<rightharpoonup> room) \<times> game) option" where
  "start_game_for_room rooms c po evs =
     (case rooms c of
        None \<Rightarrow> None
      | Some rm \<Rightarrow>
          (let g = game_loop po (new_game rm evs) in
           if blocked g then Some (rooms(c \<mapsto> g_room g), g)
           else Some (rooms(c := None),
                      g\<lparr>g_out := g_out g @ game_over (g_room g) (result g)\<rparr>)))"

subsection \<open>The Room Directory\<close>

text \<open>
  A join can end by an exception: the sends of \<^verbatim>\<open>join_room\<close> are not guarded.
  \<open>send_ok\<close> is the network's answer to the one send the call makes.
\<close>

datatype status = Returned | Raised

definition empty_board :: "int list list" where
  "empty_board = [[0,0,0],[0,0,0],[0,0,0]]"

definition join_room ::
  "(string \<rightharpoonup> room) \<Rightarrow> conn \<Rightarrow> addr \<Rightarrow> string \<Rightarrow> bool
     \<Rightarrow> (string \<rightharpoonup> room) \<times> action list \<times> status" where
  "join_room rooms c a cd send_ok =
     (case rooms cd of
        None \<Rightarrow>
          (rooms(cd \<mapsto> \<lparr>code = cd, players = [c], addrs = [a], spectators = [],
                          matrix = empty_board\<rparr>),
           [Send c ''<<< You are player 1 >>>''],
           if send_ok then Returned else Raised)
      | Some rm \<Rightarrow>
          if length (players rm) = 1 then
            (let rooms' = rooms(cd \<mapsto> rm\<lparr>players := players rm @ [c], addrs := addrs rm @ [a]\<rparr>)
             in if send_ok
                then (rooms', [Send c ''<<< You are player 2 >>>'', StartThread cd], Returned)
                else (rooms', [Send c ''<<< You are player 2 >>>''], Raised))
          else if send_ok then (rooms, [Send c ''Room Full'', Close c], Returned)
          else (rooms, [Send c ''Room Full''], Raised))"

text \<open>
  \<^verbatim>\<open>join_as_spectator\<close> sends three messages under one handler. \<open>fail_at = Some k\<close> with
  \<open>k < 3\<close>: the send number \<open>k\<close> (from 0) raises; otherwise all three are delivered.
\<close>

definition join_as_spectator ::
  "(string \<rightharpoonup> room) \<Rightarrow> conn \<Rightarrow> addr \<Rightarrow> string \<Rightarrow> nat option
     \<Rightarrow> (string \<rightharpoonup> room) \<times> action list" where
  "join_as_spectator rooms c a cd fail_at =
     (let rm0 = (case rooms cd of
                   None \<Rightarrow> \<lparr>code = cd, players = [], addrs = [], spectators = [],
                             matrix = empty_board\<rparr>
                 | Some rm \<Rightarrow> rm);
          rm = rm0\<lparr>spectators := spectators rm0 @ [c]\<rparr>;
          msgs = [''<<< You are spectator >>>'', ''Matrix'', str_matrix (matrix rm)]
      in case fail_at of
           None \<Rightarrow> (rooms(cd \<mapsto> rm), map (Send c) msgs)
         | Some k \<Rightarrow>
             if k < 3 then
               (rooms(cd \<mapsto> rm\<lparr>spectators := remove1 c (spectators rm)\<rparr>),
                map (Send c) (take (Suc k) msgs) @ [Close c])
             else (rooms(cd \<mapsto> rm), map (Send c) msgs))"

text \<open>
  The dispatch of \<^verbatim>\<open>start_server\<close> for a handshake that parsed: \<^verbatim>\<open>ROOM\<close> goes to
  \<^verbatim>\<open>join_room\<close>, \<^verbatim>\<open>SPECTATE\<close> to \<^verbatim>\<open>join_as_spectator\<close>, and an exception of the join
  is caught by the handler of the accept loop, which closes the connection.
\<close>

datatype request =
    ROOM conn addr string bool
  | SPECTATE conn addr string "nat option"

fun dispatch :: "(string \<rightharpoonup> room) \<Rightarrow> request \<Rightarrow> (string \<rightharpoonup> room) \<times> action list" where
  "dispatch rooms (ROOM c a cd send_ok) =
     (case join_room rooms c a cd send_ok of
        (rooms', acts, Returned) \<Rightarrow> (rooms', acts)
      | (rooms', acts, Raised) \<Rightarrow> (rooms', acts @ [Close c]))"
| "dispatch rooms (SPECTATE c a cd fail_at) = join_as_spectator rooms c a cd fail_at"

text \<open>The accept loop over a sequence of handshakes, with everything it did.\<close>

fun serve :: "(string \<rightharpoonup> room) \<Rightarrow> request list \<Rightarrow> (string \<rightharpoonup> room) \<times> action list" where
  "serve rooms [] = (rooms, [])"
| "serve rooms (q # qs) =
     (case dispatch rooms q of
        (rooms', acts) \<Rightarrow> (case serve rooms' qs of (rooms'', acts') \<Rightarrow> (rooms'', acts @ acts')))"

subsection \<open>Invariants of the Turn Engine\<close>




subsection \<open>Concrete games\<close>

text \<open>
  A room with two players, the connections 1 and 2, no spectator and an empty board; a
  network on which every prompt is delivered (\<open>always\<close>); and three sequences of events:
  only player two moves, only player one moves, and the nine moves of a drawn game.
  \<open>outcome\<close> collects what the examples below look at: whether the loop blocked,
  \<^verbatim>\<open>turn_count\<close>, \<^verbatim>\<open>result\<close>, the board, the player of every iteration, which
  iterations wrote a move, the players of the moves written, and the connections.
\<close>

definition room_abc :: room where
  "room_abc = \<lparr>code = ''ABC'', players = [1, 2],
                addrs = [(''10.0.0.1'', 5001), (''10.0.0.2'', 5002)],
                spectators = [], matrix = empty_board\<rparr>"


definition outcome ::
  "game \<Rightarrow> bool \<times> nat \<times> int \<times> int list list \<times> int list \<times> bool list \<times> int list \<times> conn list" where
  "outcome g = (blocked g, turn_count g, result g, matrix (g_room g),
                map mover (history g), map moved (history g),
                map mover (filter moved (history g)), room_conns_all (g_room g))"

definition evs_two_only :: "event list" where
  "evs_two_only =
     [Recv 2 (Data ''0,0''), Reselect, Recv 2 (Data ''0,1''), Reselect, Recv 2 (Data ''0,2'')]"

definition evs_one_only :: "event list" where
  "evs_one_only =
     [Recv 1 (Data ''0,0''), Reselect, Recv 1 (Data ''1,1''), Reselect, Recv 1 (Data ''2,2'')]"


subsection \<open>Properties of the Win Evaluator\<close>

lemma upt_3: "[0..<3] = [0, Suc 0, Suc (Suc 0)]"
  by (simp add: upt_rec)

lemma board3_rows: "board3 m \<Longrightarrow> \<exists>r0 r1 r2. m = [r0, r1, r2]"
  by (cases m; cases "tl m"; cases "tl (tl m)") (auto simp: board3_def)

lemma same3: "(a = b \<and> b = c \<and> c \<noteq> (0::int)) \<longleftrightarrow> (a \<noteq> 0 \<and> b = a \<and> c = a)"
  by auto

lemma case_option_if:
  "(case (if c then x else y) of None \<Rightarrow> a | Some l \<Rightarrow> f l) =
   (if c then (case x of None \<Rightarrow> a | Some l \<Rightarrow> f l) else (case y of None \<Rightarrow> a | Some l \<Rightarrow> f l))"
  by simp

lemmas unfold_find = find.simps same3 fst_conv snd_conv nth_Cons_0 nth_Cons_Suc One_nat_def
  numeral_2_eq_2 option.case case_option_if

lemma rows_find:
  "check_rows [r0, r1, r2] =
     mark [r0, r1, r2] (find (line_complete [r0, r1, r2])
       [[(0,0),(0,1),(0,2)], [(1,0),(1,1),(1,2)], [(2,0),(2,1),(2,2)]])"
  unfolding check_rows_def mark_def line_complete_def cell_def
  by (simp only: unfold_find cong: if_cong)

lemma cols_find:
  "check_columns [r0, r1, r2] =
     mark [r0, r1, r2] (find (line_complete [r0, r1, r2])
       [[(0,0),(1,0),(2,0)], [(0,1),(1,1),(2,1)], [(0,2),(1,2),(2,2)]])"
  unfolding check_columns_def mark_def line_complete_def cell_def upt_3
  by (simp only: unfold_find cong: if_cong)

lemma diags_find:
  "check_diagonals [r0, r1, r2] =
     mark [r0, r1, r2] (find (line_complete [r0, r1, r2])
       [[(0,0),(1,1),(2,2)], [(0,2),(1,1),(2,0)]])"
  unfolding check_diagonals_def mark_def line_complete_def cell_def
  by (simp only: unfold_find cong: if_cong)

lemma find_append_first:
  "find P (xs @ ys) = (case find P xs of None \<Rightarrow> find P ys | Some x \<Rightarrow> Some x)"
  by (induction xs) auto

lemma mark_find_nonzero:
  "mark m (find (line_complete m) ls) \<noteq> 0 \<longleftrightarrow> find (line_complete m) ls \<noteq> None"
proof (cases "find (line_complete m) ls")
  case None
  then show ?thesis by (simp add: mark_def)
next
  case (Some l)
  then have "line_complete m l" by (auto simp: find_Some_iff)
  then show ?thesis using Some by (simp add: mark_def line_complete_def)
qed

lemma winning_lines_groups:
  "winning_lines =
     [[(0,0),(0,1),(0,2)], [(1,0),(1,1),(1,2)], [(2,0),(2,1),(2,2)]] @
     [[(0,0),(1,0),(2,0)], [(0,1),(1,1),(2,1)], [(0,2),(1,2),(2,2)]] @
     [[(0,0),(1,1),(2,2)], [(0,2),(1,1),(2,0)]]"
  by (simp add: winning_lines_def)

lemma check_winner_spec_rows: "check_winner [r0, r1, r2] = spec_winner [r0, r1, r2]"
proof -
  have s: "spec_winner [r0, r1, r2] = mark [r0, r1, r2] (find (line_complete [r0, r1, r2]) winning_lines)"
    by (simp add: spec_winner_def mark_def)
  show ?thesis
    unfolding check_winner_def rows_find cols_find diags_find s mark_find_nonzero
    unfolding winning_lines_groups find_append_first
    by (simp split: option.splits)
qed

lemma find_only:
  "l \<in> set ls \<Longrightarrow> P l \<Longrightarrow> (\<And>l'. l' \<in> set ls \<Longrightarrow> l' \<noteq> l \<Longrightarrow> \<not> P l') \<Longrightarrow> find P ls = Some l"
  by (induction ls) auto

lemma find_none: "(\<And>l. l \<in> set ls \<Longrightarrow> \<not> P l) \<Longrightarrow> find P ls = None"
  by (induction ls) auto

text \<open>
  Claim C3. On every 3 by 3 board \<^verbatim>\<open>check_winner\<close> returns the mark of the first complete
  line in the order rows, columns, diagonals, and 0 when no line is complete. In
  particular a board without a complete line gives 0, and a board on which exactly one
  of the eight lines is complete gives the mark of that line.
\<close>

theorem check_winner_first_line:
  assumes "board3 m"
  shows "check_winner m = spec_winner m
    \<and> ((\<forall>l \<in> set winning_lines. \<not> line_complete m l) \<longrightarrow> check_winner m = 0)
    \<and> (\<forall>l \<in> set winning_lines.
           line_complete m l \<and> (\<forall>l' \<in> set winning_lines. l' \<noteq> l \<longrightarrow> \<not> line_complete m l')
           \<longrightarrow> check_winner m = cell m (l ! 0) \<and> check_winner m \<noteq> 0)"
proof -
  from assms obtain r0 r1 r2 where m: "m = [r0, r1, r2]" using board3_rows by blast
  have eq: "check_winner m = spec_winner m" unfolding m by (rule check_winner_spec_rows)
  have none: "(\<forall>l \<in> set winning_lines. \<not> line_complete m l) \<longrightarrow> check_winner m = 0"
  proof
    assume "\<forall>l \<in> set winning_lines. \<not> line_complete m l"
    then have "find (line_complete m) winning_lines = None" by (intro find_none) blast
    then show "check_winner m = 0" by (simp add: eq spec_winner_def)
  qed
  have one: "\<forall>l \<in> set winning_lines.
           line_complete m l \<and> (\<forall>l' \<in> set winning_lines. l' \<noteq> l \<longrightarrow> \<not> line_complete m l')
           \<longrightarrow> check_winner m = cell m (l ! 0) \<and> check_winner m \<noteq> 0"
  proof (intro ballI impI)
    fix l assume l: "l \<in> set winning_lines"
      and h: "line_complete m l \<and> (\<forall>l' \<in> set winning_lines. l' \<noteq> l \<longrightarrow> \<not> line_complete m l')"
    then have "find (line_complete m) winning_lines = Some l" by (intro find_only) auto
    then have "check_winner m = cell m (l ! 0)" by (simp add: eq spec_winner_def)
    moreover have "cell m (l ! 0) \<noteq> 0" using h by (simp add: line_complete_def)
    ultimately show "check_winner m = cell m (l ! 0) \<and> check_winner m \<noteq> 0" by simp
  qed
  from eq none one show ?thesis by blast
qed

theorem check_winner_first_line_witness:
  "board3 [[1,2,0],[2,1,0],[0,0,1]]
   \<and> check_winner [[1,2,0],[2,1,0],[0,0,1]] = 1
   \<and> board3 [[1,2,1],[1,2,2],[2,1,1]]
   \<and> check_winner [[1,2,1],[1,2,2],[2,1,1]] = 0"
proof -
  let ?b = "[[1,2,0],[2,1,0],[0,0,1]] :: int list list"
  let ?f = "[[1,2,1],[1,2,2],[2,1,1]] :: int list list"
  let ?d = "[(0,0),(1,1),(2,2)] :: (nat \<times> nat) list"
  have b: "board3 ?b" and f: "board3 ?f" by (simp_all add: board3_def)
  have d: "?d \<in> set winning_lines" by (simp add: winning_lines_def)
  have only: "line_complete ?b ?d
      \<and> (\<forall>l' \<in> set winning_lines. l' \<noteq> ?d \<longrightarrow> \<not> line_complete ?b l')"
    by (simp add: winning_lines_def line_complete_def cell_def)
  have no_line: "\<forall>l \<in> set winning_lines. \<not> line_complete ?f l"
    by (simp add: winning_lines_def line_complete_def cell_def)
  have "check_winner ?b = cell ?b (?d ! 0)"
    by (rule conjunct1 [OF mp [OF bspec [OF conjunct2 [OF conjunct2 [OF check_winner_first_line [OF b]]] d] only]])
  then have one: "check_winner ?b = 1" by (simp add: cell_def)
  have zero: "check_winner ?f = 0"
    by (rule mp [OF conjunct1 [OF conjunct2 [OF check_winner_first_line [OF f]]] no_line])
  from b one f zero show ?thesis by (intro conjI)
qed

subsection \<open>Properties of the Room Directory\<close>

lemma join_room_else:
  "rooms cd = Some rm \<Longrightarrow> length (players rm) \<noteq> 1 \<Longrightarrow>
   join_room rooms c a cd send_ok =
     (rooms, if send_ok then [Send c ''Room Full'', Close c] else [Send c ''Room Full''],
      if send_ok then Returned else Raised)"
  by (simp add: join_room_def)

lemma dispatch_else:
  "rooms cd = Some rm \<Longrightarrow> length (players rm) \<noteq> 1 \<Longrightarrow>
   dispatch rooms (ROOM c a cd send_ok) = (rooms, [Send c ''Room Full'', Close c])"
  by (simp add: join_room_else)

lemma str_matrix_empty_board: "str_matrix empty_board = ''[[0, 0, 0], [0, 0, 0], [0, 0, 0]]''"
  by code_simp

lemma spectate_unseen:
  "rooms cd = None \<Longrightarrow> join_as_spectator rooms s a cd fail_at = (rooms1, acts) \<Longrightarrow>
   \<exists>rm. rooms1 cd = Some rm \<and> players rm = []"
  by (auto simp: join_as_spectator_def Let_def split: option.splits if_splits)

text \<open>
  Claim C4. A join-as-player request for a code whose room has two players is answered
  \<^verbatim>\<open>Room Full\<close>, the new connection is closed, and the directory is left as it was:
  no room, and so no players list, spectators list or board, is changed. When the send
  raises, \<^verbatim>\<open>join_room\<close> leaves by the exception and the handler of the accept loop
  closes the connection instead.
\<close>

theorem join_room_full:
  assumes "rooms cd = Some rm" and "length (players rm) = 2"
  shows "join_room rooms c a cd send_ok =
           (rooms, if send_ok then [Send c ''Room Full'', Close c] else [Send c ''Room Full''],
            if send_ok then Returned else Raised)
       \<and> dispatch rooms (ROOM c a cd send_ok) = (rooms, [Send c ''Room Full'', Close c])"
  using assms by (simp add: join_room_else dispatch_else)

theorem join_room_full_witness:
  "dispatch [''ABC'' \<mapsto> \<lparr>code = ''ABC'', players = [1, 2], addrs = [(''h'', 1), (''h'', 2)],
                           spectators = [7], matrix = empty_board\<rparr>]
            (ROOM 3 (''h'', 3) ''ABC'' True)
   = ([''ABC'' \<mapsto> \<lparr>code = ''ABC'', players = [1, 2], addrs = [(''h'', 1), (''h'', 2)],
                           spectators = [7], matrix = empty_board\<rparr>],
      [Send 3 ''Room Full'', Close 3])"
  using join_room_full [of "[''ABC'' \<mapsto> \<lparr>code = ''ABC'', players = [1, 2], addrs = [(''h'', 1), (''h'', 2)],
                           spectators = [7], matrix = empty_board\<rparr>]" "''ABC''"
        "\<lparr>code = ''ABC'', players = [1, 2], addrs = [(''h'', 1), (''h'', 2)],
                           spectators = [7], matrix = empty_board\<rparr>" 3 "(''h'', 3)" True]
  by simp

text \<open>
  Claim C10. A room that exists with no player (a \<^verbatim>\<open>SPECTATE\<close> handshake on an unseen
  code creates one) answers a \<^verbatim>\<open>ROOM\<close> join with \<^verbatim>\<open>Room Full\<close> and closes the
  connection; the directory is unchanged, so the connection is not seated as player one.
\<close>

theorem join_room_spectator_room:
  "(rooms cd = Some rm \<and> players rm = [] \<longrightarrow>
      dispatch rooms (ROOM c a cd send_ok) = (rooms, [Send c ''Room Full'', Close c]))
   \<and> (rooms cd = None \<longrightarrow>
        (\<exists>rm1. fst (join_as_spectator rooms s a' cd fail_at) cd = Some rm1 \<and> players rm1 = [])
        \<and> dispatch (fst (join_as_spectator rooms s a' cd fail_at)) (ROOM c a cd send_ok)
            = (fst (join_as_spectator rooms s a' cd fail_at), [Send c ''Room Full'', Close c]))"
proof (intro conjI impI)
  assume "rooms cd = Some rm \<and> players rm = []"
  then show "dispatch rooms (ROOM c a cd send_ok) = (rooms, [Send c ''Room Full'', Close c])"
    by (intro dispatch_else [of _ _ rm]) simp_all
next
  assume n: "rooms cd = None"
  obtain rooms1 acts where j: "join_as_spectator rooms s a' cd fail_at = (rooms1, acts)"
    by (cases "join_as_spectator rooms s a' cd fail_at")
  from spectate_unseen [OF n j] obtain rm1 where r: "rooms1 cd = Some rm1" "players rm1 = []"
    by blast
  then show "\<exists>rm1. fst (join_as_spectator rooms s a' cd fail_at) cd = Some rm1 \<and> players rm1 = []"
    by (simp add: j)
  show "dispatch (fst (join_as_spectator rooms s a' cd fail_at)) (ROOM c a cd send_ok)
            = (fst (join_as_spectator rooms s a' cd fail_at), [Send c ''Room Full'', Close c])"
    unfolding j fst_conv by (rule dispatch_else [of _ _ rm1]) (simp_all add: r)
qed

theorem join_room_spectator_room_witness:
  "(case serve Map.empty [SPECTATE 5 (''h'', 5) ''XY'' None, ROOM 1 (''h'', 1) ''XY'' True] of
      (rooms, acts) \<Rightarrow>
        map_option players (rooms ''XY'') = Some [] \<and>
        map_option spectators (rooms ''XY'') = Some [5] \<and>
        acts = [Send 5 ''<<< You are spectator >>>'', Send 5 ''Matrix'',
                Send 5 ''[[0, 0, 0], [0, 0, 0], [0, 0, 0]]'',
                Send 1 ''Room Full'', Close 1])"
proof -
  let ?rm = "\<lparr>code = ''XY'', players = [], addrs = [], spectators = [5], matrix = empty_board\<rparr>"
  let ?rooms = "[''XY'' \<mapsto> ?rm]"
  have n: "(Map.empty :: string \<rightharpoonup> room) ''XY'' = None" by simp
  have j: "join_as_spectator Map.empty 5 (''h'', 5) ''XY'' None =
      (?rooms, [Send 5 ''<<< You are spectator >>>'', Send 5 ''Matrix'',
                Send 5 ''[[0, 0, 0], [0, 0, 0], [0, 0, 0]]''])"
    by (simp add: join_as_spectator_def str_matrix_empty_board)
  note t = join_room_spectator_room
  have after_spectate:
    "dispatch (fst (join_as_spectator Map.empty 5 (''h'', 5) ''XY'' None)) (ROOM 1 (''h'', 1) ''XY'' True)
      = (fst (join_as_spectator Map.empty 5 (''h'', 5) ''XY'' None), [Send 1 ''Room Full'', Close 1])"
    by (rule conjunct2 [OF mp [OF conjunct2 [OF t [of Map.empty "''XY''" ?rm 1 "(''h'', 1)" True 5 "(''h'', 5)" None]] n]])
  have h: "?rooms ''XY'' = Some ?rm \<and> players ?rm = []" by simp
  have no_players: "dispatch ?rooms (ROOM 1 (''h'', 1) ''XY'' True) = (?rooms, [Send 1 ''Room Full'', Close 1])"
    by (rule mp [OF conjunct1 [OF t [of ?rooms "''XY''" ?rm 1 "(''h'', 1)" True 5 "(''h'', 5)" None]] h])
  show ?thesis using no_players after_spectate by (simp add: j)
qed

text \<open>
  Claim C9, at a second join whose reply cannot be delivered. The second \<^verbatim>\<open>ROOM\<close>
  handshake for a code appends the connection to the players, and then the send of
  \<^verbatim>\<open><<< You are player 2 >>>\<close> raises: \<^verbatim>\<open>join_room\<close> is left before
  \<^verbatim>\<open>t.start()\<close>. The room has gone from one player to two, no Turn Engine thread was
  started, and a later join is refused with \<^verbatim>\<open>Room Full\<close>.
\<close>

theorem join_room_failed_reply:
  "(case serve Map.empty [ROOM 1 (''h'', 1) ''ABC'' True, ROOM 2 (''h'', 2) ''ABC'' False,
                           ROOM 3 (''h'', 3) ''ABC'' True] of
      (rooms, acts) \<Rightarrow>
        map_option players (rooms ''ABC'') = Some [1, 2] \<and>
        acts = [Send 1 ''<<< You are player 1 >>>'', Send 2 ''<<< You are player 2 >>>'', Close 2,
                Send 3 ''Room Full'', Close 3] \<and>
        StartThread ''ABC'' \<notin> set acts)"
  by (simp add: join_room_def)

subsection \<open>Properties of get_input and of the Turn Engine loop\<close>















lemma run_two_only:
  "outcome (game_loop odd (new_game room_abc evs_two_only)) =
     (False, 6, 2, [[2,2,2],[0,0,0],[0,0,0]], [1,2,1,2,1,2],
      [False, True, False, True, False, True], [2,2,2], [1, 2])"
  by code_simp

lemma run_one_only:
  "outcome (game_loop even (new_game room_abc evs_one_only)) =
     (False, 5, 1, [[1,0,0],[0,1,0],[0,0,1]], [1,2,1,2,1],
      [True, False, True, False, True], [1,1,1], [1, 2])"
  by code_simp


lemma py_index_less: "py_index n i = Some k \<Longrightarrow> k < n"
  by (auto simp: py_index_def split: if_splits)

lemma set_cell_board3:
  assumes "board3 m" and "set_cell m x y v = Some m'"
  shows "board3 m'"
proof -
  from assms(2) obtain i j where i: "py_index (length m) x = Some i"
    and j: "py_index (length (m ! i)) y = Some j" and m': "m' = m[i := (m ! i)[j := v]]"
    by (auto simp: set_cell_def split: option.splits)
  have il: "i < length m" using py_index_less [OF i] .
  have "length (m' ! n) = 3" if "n < 3" for n
    using that assms(1) il by (cases "n = i") (auto simp: m' board3_def list_all_length)
  then show ?thesis using assms(1) by (simp add: board3_def list_all_length m')
qed

lemma current_of_even: "current_of k = (if even k then PLAYER_ONE else PLAYER_TWO)"
  by (simp add: current_of_def even_iff_mod_2_eq_zero)

subsection \<open>Properties of the Turn Engine\<close>



end
